theory Spec2Isabelle
  imports Main
begin

section \<open>The notebook \<open>notebooks/mlrun_mpijob_pipe.ipynb\<close>\<close>

text \<open>
  The repository is one Jupyter notebook. It builds function objects with the mlrun
  client, declares a Kubeflow pipeline over them, compiles and submits it, and lists
  the runs of the submitted workflow. The model keeps the notebook's own text: each
  code cell is a state transformer over the notebook's global variables, every client
  call is entered in a call log with the number of its cell, and what the external
  services answer (the function database, the run id of a submission, the run
  database) is a parameter of the run.
\<close>

subsection \<open>Python values\<close>

datatype pyval =
    PNone
  | PBool bool
  | PInt int
  | PStr string
  | PList "pyval list"
  | PDict "(string \<times> pyval) list"

text \<open>\<open>d[k]\<close> on a dictionary, and a chain of such lookups.\<close>

fun dict_get :: "pyval \<Rightarrow> string \<Rightarrow> pyval option" where
  "dict_get (PDict kvs) k = map_of kvs k"
| "dict_get PNone k = None"
| "dict_get (PBool b) k = None"
| "dict_get (PInt i) k = None"
| "dict_get (PStr s) k = None"
| "dict_get (PList vs) k = None"

fun get_path :: "pyval \<Rightarrow> string list \<Rightarrow> pyval option" where
  "get_path v [] = Some v"
| "get_path v (k # ks) = (case dict_get v k of None \<Rightarrow> None | Some w \<Rightarrow> get_path w ks)"

fun str_of :: "pyval option \<Rightarrow> string option" where
  "str_of (Some (PStr s)) = Some s"
| "str_of (Some PNone) = None"
| "str_of (Some (PBool b)) = None"
| "str_of (Some (PInt i)) = None"
| "str_of (Some (PList vs)) = None"
| "str_of (Some (PDict kvs)) = None"
| "str_of None = None"

text \<open>\<open>os.path.join(a, b)\<close> of the POSIX path module, for two components.\<close>

definition os_path_join :: "string \<Rightarrow> string \<Rightarrow> string" where
  "os_path_join a b =
     (if b \<noteq> [] \<and> hd b = CHR ''/'' then b
      else if a = [] \<or> last a = CHR ''/'' then a @ b
      else a @ ''/'' @ b)"

datatype error =
    KeyError string
  | NameError string
  | FunctionNotFound string

subsection \<open>Function objects\<close>

text \<open>
  \<open>mount_v3io()\<close> and \<open>v3io_cred()\<close> are the two modifiers the notebook hands to
  \<open>apply\<close>. A function object records its name, the keyword arguments of its
  constructor, its image, the image that \<open>deploy()\<close> built for it, the modifiers
  applied to it, the workers of its HTTP trigger, and, for a function read from the
  database, the stored descriptor that \<open>to_dict\<close> prints.
\<close>

datatype modifier = mount_v3io | v3io_cred

record runtime =
  fn_name :: string
  fn_kind :: "string option"
  fn_filename :: "string option"
  fn_image :: "string option"
  fn_build_image :: "string option"
  fn_model_class :: "string option"
  fn_workers :: "int option"
  fn_applied :: "modifier list"
  fn_descriptor :: "pyval option"

text \<open>
  The client does not keep an underscore in the name of a function it builds from a
  file: the function that In [4] builds as \<open>file_utils\<close> is \<open>file-utils\<close> in the
  build line the cell logged.
\<close>

definition normalize_name :: "string \<Rightarrow> string" where
  "normalize_name name = map (\<lambda>c. if c = CHR ''_'' then CHR ''-'' else c) name"

definition code_to_function :: "string \<Rightarrow> string \<Rightarrow> string \<Rightarrow> string \<Rightarrow> runtime" where
  "code_to_function name filename img kind =
     \<lparr>fn_name = normalize_name name, fn_kind = Some kind, fn_filename = Some filename,
      fn_image = Some img, fn_build_image = None, fn_model_class = None,
      fn_workers = None, fn_applied = [], fn_descriptor = None\<rparr>"

text \<open>
  \<open>f.deploy()\<close> builds an image for the function on top of the function's image and
  makes it the function's image. The notebook passes no project and no tag, so the
  image is named after the project \<open>default\<close>, the function's name and the tag
  \<open>latest\<close>; In [4] logged that name when the build started.
\<close>

definition default_image_name :: "runtime \<Rightarrow> string" where
  "default_image_name f = ''.mlrun/func-default-'' @ fn_name f @ ''-latest''"

definition fn_deploy :: "runtime \<Rightarrow> runtime" where
  "fn_deploy f =
     f\<lparr>fn_build_image := Some (default_image_name f),
       fn_image := Some (default_image_name f)\<rparr>"

definition new_model_server :: "string \<Rightarrow> string \<Rightarrow> string \<Rightarrow> runtime" where
  "new_model_server name filename model_class =
     \<lparr>fn_name = name, fn_kind = None, fn_filename = Some filename,
      fn_image = None, fn_build_image = None, fn_model_class = Some model_class,
      fn_workers = None, fn_applied = [], fn_descriptor = None\<rparr>"

text \<open>
  \<open>import_function(url)\<close> asks the function database for the descriptor stored under
  \<open>url\<close>; the database is the parameter \<open>db\<close>. The object it returns carries the
  descriptor, with name, kind and image read from it.
\<close>

definition import_function :: "(string \<Rightarrow> pyval option) \<Rightarrow> string \<Rightarrow> error + runtime" where
  "import_function db url =
     (case db url of
        None \<Rightarrow> Inl (FunctionNotFound url)
      | Some d \<Rightarrow>
          Inr \<lparr>fn_name = (case str_of (get_path d [''metadata'', ''name'']) of
                            None \<Rightarrow> [] | Some n \<Rightarrow> n),
               fn_kind = str_of (get_path d [''kind'']),
               fn_filename = None,
               fn_image = str_of (get_path d [''spec'', ''image'']),
               fn_build_image = None,
               fn_model_class = None, fn_workers = None,
               fn_applied = [], fn_descriptor = Some d\<rparr>)"


definition apply_modifier :: "modifier \<Rightarrow> runtime \<Rightarrow> runtime" where
  "apply_modifier m f = f\<lparr>fn_applied := fn_applied f @ [m]\<rparr>"

definition with_http :: "int \<Rightarrow> runtime \<Rightarrow> runtime" where
  "with_http workers f = f\<lparr>fn_workers := Some workers\<rparr>"

subsection \<open>Pipeline steps\<close>

text \<open>
  An argument of a step is a value, or the output \<open>key\<close> of an earlier step
  (\<open>step.outputs[key]\<close>), written with the name of that step. A keyword that a call
  does not pass is \<open>None\<close> (handler, out_path) or the empty dictionary (params,
  inputs).
\<close>

datatype arg = Val pyval | Output string string

record step =
  step_name :: string
  step_fn :: runtime
  handler :: "string option"
  out_path :: "string option"
  params :: "(string \<times> arg) list"
  inputs :: "(string \<times> arg) list"
  outputs :: "string list"
  after :: "string list"
  step_applied :: "modifier list"

record deployment =
  deploy_fn :: runtime
  project :: string
  models :: "(string \<times> arg) list"

datatype op = Run step | Serve deployment

definition as_step ::
  "runtime \<Rightarrow> string \<Rightarrow> string option \<Rightarrow> string option \<Rightarrow> (string \<times> arg) list \<Rightarrow>
   (string \<times> arg) list \<Rightarrow> string list \<Rightarrow> step" where
  "as_step f name h out ps ins outs =
     \<lparr>step_name = name, step_fn = f, handler = h, out_path = out, params = ps,
      inputs = ins, outputs = outs, after = [], step_applied = []\<rparr>"

text \<open>\<open>s.after(t)\<close>, \<open>s.apply(m)\<close> and \<open>s.outputs[k]\<close> on a step.\<close>

definition after_step :: "step \<Rightarrow> step \<Rightarrow> step" where
  "after_step t s = s\<lparr>after := after s @ [step_name t]\<rparr>"

definition apply_step :: "modifier \<Rightarrow> step \<Rightarrow> step" where
  "apply_step m s = s\<lparr>step_applied := step_applied s @ [m]\<rparr>"

definition step_output :: "step \<Rightarrow> string \<Rightarrow> error + arg" where
  "step_output s k =
     (if k \<in> set (outputs s) then Inr (Output (step_name s) k) else Inl (KeyError k))"

definition deploy_step :: "runtime \<Rightarrow> string \<Rightarrow> (string \<times> arg) list \<Rightarrow> deployment" where
  "deploy_step f proj ms = \<lparr>deploy_fn = f, project = proj, models = ms\<rparr>"

subsection \<open>The pipeline \<open>hvd_pipeline\<close>\<close>

record pipeline_args =
  image_archive :: string
  images_path :: string
  source_dir :: string
  checkpoints_dir :: string
  model_path :: string
  model_name :: string

definition default_args :: pipeline_args where
  "default_args =
     \<lparr>image_archive = ''http://iguazio-sample-data.s3.amazonaws.com/catsndogs.zip'',
      images_path = ''/User/mlrun/examples/images'',
      source_dir = ''/User/mlrun/examples/images/cats_n_dogs'',
      checkpoints_dir = ''/User/mlrun/examples/checkpoints'',
      model_path = ''/User/mlrun/examples/models/cats_n_dogs.h5'',
      model_name = ''cat_vs_dog_v1''\<rparr>"

text \<open>
  The body of \<open>hvd_pipeline\<close>. It reads the globals \<open>utilsfn\<close>, \<open>trainer_fn\<close> and
  \<open>inference_function\<close> when it is called, so they are arguments here. The steps are
  returned in the order the body creates them.
\<close>

definition hvd_pipeline ::
  "runtime \<Rightarrow> runtime \<Rightarrow> runtime \<Rightarrow> pipeline_args \<Rightarrow> error + op list" where
  "hvd_pipeline utilsfn trainer_fn inference_function a =
     (let open_archive =
            as_step utilsfn ''download'' (Some ''open_archive'') (Some (images_path a))
              [(''target_dir'', Val (PStr (images_path a)))]
              [(''archive_url'', Val (PStr (image_archive a)))]
              [''content''];
          label =
            after_step open_archive
              (as_step utilsfn ''label'' (Some ''categories_map_builder'')
                 (Some (images_path a))
                 [(''source_dir'', Val (PStr (source_dir a)))]
                 []
                 [''categories_map'', ''file_categories''])
      in case step_output label ''categories_map'' of
           Inl e \<Rightarrow> Inl e
         | Inr categories_map \<Rightarrow>
        (case step_output label ''file_categories'' of
           Inl e \<Rightarrow> Inl e
         | Inr file_categories \<Rightarrow>
        (let train =
               apply_step v3io_cred
                 (as_step trainer_fn ''train'' None None
                    [(''epochs'', Val (PInt 1)),
                     (''checkpoints_dir'', Val (PStr (checkpoints_dir a))),
                     (''model_path'', Val (PStr (model_path a))),
                     (''data_path'', Val (PStr (source_dir a)))]
                    [(''categories_map'', categories_map),
                     (''file_categories'', file_categories)]
                    [''model''])
         in case step_output train ''model'' of
              Inl e \<Rightarrow> Inl e
            | Inr model \<Rightarrow>
                Inr [Run open_archive, Run label, Run train,
                     Serve (deploy_step inference_function ''nuclio-serving''
                              [(model_name a, model)])])))"

text \<open>
  The \<open>arguments\<close> dictionary of a submission overrides the defaults of the pipeline's
  parameters, by name.
\<close>

definition with_arguments :: "(string \<times> string) list \<Rightarrow> pipeline_args \<Rightarrow> pipeline_args" where
  "with_arguments args d =
     \<lparr>image_archive = (case map_of args ''image_archive'' of None \<Rightarrow> image_archive d | Some v \<Rightarrow> v),
      images_path = (case map_of args ''images_path'' of None \<Rightarrow> images_path d | Some v \<Rightarrow> v),
      source_dir = (case map_of args ''source_dir'' of None \<Rightarrow> source_dir d | Some v \<Rightarrow> v),
      checkpoints_dir = (case map_of args ''checkpoints_dir'' of None \<Rightarrow> checkpoints_dir d | Some v \<Rightarrow> v),
      model_path = (case map_of args ''model_path'' of None \<Rightarrow> model_path d | Some v \<Rightarrow> v),
      model_name = (case map_of args ''model_name'' of None \<Rightarrow> model_name d | Some v \<Rightarrow> v)\<rparr>"

subsection \<open>The external services\<close>

text \<open>
  A run of the run database carries a dictionary of labels. The label filter of
  \<open>list_runs\<close> is one condition. A condition without an equals sign asks for a label
  of that name to be present. A condition \<open>key=value\<close>, read at its first equals
  sign, compares \<open>value\<close> with the run's label \<open>key\<close>, where a run without that
  label counts as having the empty value. \<open>list_runs\<close> answers with the runs of the
  database that match the name (the empty name matches every run) and the condition
  (the empty filter matches every run), in the order of the database. What the run
  database holds when it is queried is a parameter of the run.
\<close>

record run_record =
  run_name :: string
  run_labels :: "(string \<times> string) list"

definition has_label :: "string \<Rightarrow> run_record \<Rightarrow> bool" where
  "has_label l r =
     (if CHR ''='' \<in> set l
      then (case map_of (run_labels r) (takeWhile (\<lambda>c. c \<noteq> CHR ''='') l) of
              None \<Rightarrow> []
            | Some v \<Rightarrow> v) = drop 1 (dropWhile (\<lambda>c. c \<noteq> CHR ''='') l)
      else l \<in> set (map fst (run_labels r)))"

definition list_runs :: "run_record list \<Rightarrow> string \<Rightarrow> string \<Rightarrow> run_record list" where
  "list_runs db name labels =
     filter (\<lambda>r. (name = [] \<or> run_name r = name) \<and> (labels = [] \<or> has_label labels r)) db"

record env =
  fn_db :: "string \<Rightarrow> pyval option"
  new_run_id :: string
  run_db :: "run_record list"

subsection \<open>The notebook's cells\<close>

text \<open>
  The client calls, as the cells write them. A constructor call starts with the
  variable it is assigned to, a method call with the variable it is called on.
\<close>

datatype call =
    Code_to_function string string string string string
  | Apply string modifier
  | Deploy string
  | Export string string
  | Import_function string string
  | To_dict string
  | New_model_server string string string string
  | With_http string int
  | Def_pipeline string
  | Compile string string
  | Client string
  | Create_run_from_pipeline_func string "(string \<times> string) list" string
  | Get_run_db_connect
  | List_runs string string
  | Show

record run_result =
  run_id :: string
  experiment_name :: string
  workflow :: "op list"

record notebook =
  dbpath :: "string option"
  base_dir :: "string option"
  g_images_path :: "string option"
  g_model_name :: "string option"
  utilsfn :: "runtime option"
  trainer_fn :: "runtime option"
  inference_function :: "runtime option"
  artifacts_path :: "string option"
  pipeline_defined :: bool
  compiled :: "(string \<times> op list) option"
  client :: "string option"
  arguments :: "(string \<times> string) list option"
  the_run :: "run_result option"
  db_connected :: bool
  shown :: "run_record list option"
  calls :: "(nat \<times> call) list"

definition fresh :: notebook where
  "fresh =
     \<lparr>dbpath = None, base_dir = None, g_images_path = None, g_model_name = None,
      utilsfn = None, trainer_fn = None, inference_function = None,
      artifacts_path = None, pipeline_defined = False, compiled = None,
      client = None, arguments = None, the_run = None, db_connected = False,
      shown = None, calls = []\<rparr>"

text \<open>Reading a global that no cell has assigned raises \<open>NameError\<close>.\<close>

definition var :: "string \<Rightarrow> 'a option \<Rightarrow> error + 'a" where
  "var name v = (case v of None \<Rightarrow> Inl (NameError name) | Some x \<Rightarrow> Inr x)"

definition log :: "nat \<Rightarrow> call list \<Rightarrow> notebook \<Rightarrow> notebook" where
  "log n cs s = s\<lparr>calls := calls s @ map (Pair n) cs\<rparr>"

text \<open>
  In [1] and In [8] only import modules. In [2]: the imports and \<open>mlconf.dbpath\<close>.
  In [3]: three globals.
\<close>

definition cell1 :: "notebook \<Rightarrow> error + notebook" where
  "cell1 s = Inr s"

definition cell2 :: "notebook \<Rightarrow> error + notebook" where
  "cell2 s = Inr (s\<lparr>dbpath := Some ''http://mlrun-api:8080''\<rparr>)"

definition cell3 :: "notebook \<Rightarrow> error + notebook" where
  "cell3 s =
     Inr (s\<lparr>base_dir := Some ''/User/mlrun/examples'',
            g_images_path := Some (os_path_join ''/User/mlrun/examples'' ''images''),
            g_model_name := Some ''cat_vs_dog_v1''\<rparr>)"

text \<open>In [4]: build \<open>utilsfn\<close> from the source file, mount, build its image.\<close>

definition cell4 :: "notebook \<Rightarrow> error + notebook" where
  "cell4 s =
     Inr (log 4
            [Code_to_function ''utilsfn'' ''file_utils'' ''../src/utils.py''
               ''mlrun/mlrun:latest'' ''job'',
             Apply ''utilsfn'' mount_v3io,
             Deploy ''utilsfn'']
            (s\<lparr>utilsfn :=
                 Some (fn_deploy
                         (apply_modifier mount_v3io
                            (code_to_function ''file_utils'' ''../src/utils.py''
                               ''mlrun/mlrun:latest'' ''job'')))\<rparr>))"

text \<open>In [5]: export the function's descriptor to a file.\<close>

definition cell5 :: "notebook \<Rightarrow> error + notebook" where
  "cell5 s =
     (case var ''utilsfn'' (utilsfn s) of
        Inl e \<Rightarrow> Inl e
      | Inr u \<Rightarrow> Inr (log 5 [Export ''utilsfn'' ''../yaml/utils.yaml''] s))"

text \<open>In [6]: read the training function from the database and print it.\<close>

definition cell6 :: "env \<Rightarrow> notebook \<Rightarrow> error + notebook" where
  "cell6 e s =
     (case import_function (fn_db e) ''db://horovod-trainer'' of
        Inl err \<Rightarrow> Inl err
      | Inr f \<Rightarrow>
          Inr (log 6
                 [Import_function ''trainer_fn'' ''db://horovod-trainer'',
                  To_dict ''trainer_fn'']
                 (s\<lparr>trainer_fn := Some f\<rparr>)))"

text \<open>In [7]: the model server, its HTTP trigger, its mount.\<close>

definition cell7 :: "notebook \<Rightarrow> error + notebook" where
  "cell7 s =
     Inr (log 7
            [New_model_server ''inference_function'' ''tf-images-server''
               ''./nuclio-serving-tf-images.ipynb'' ''TFModel'',
             With_http ''inference_function'' 2,
             Apply ''inference_function'' mount_v3io]
            (s\<lparr>inference_function :=
                 Some (apply_modifier mount_v3io
                         (with_http 2
                            (new_model_server ''tf-images-server''
                               ''./nuclio-serving-tf-images.ipynb'' ''TFModel'')))\<rparr>))"

text \<open>In [9]: a global. In [10]: the definition of \<open>hvd_pipeline\<close>.\<close>

definition cell8 :: "notebook \<Rightarrow> error + notebook" where
  "cell8 s = Inr s"

definition cell9 :: "notebook \<Rightarrow> error + notebook" where
  "cell9 s =
     Inr (s\<lparr>artifacts_path := Some ''v3io:///users/admin/mlrun/kfp/{{workflow.uid}}/''\<rparr>)"

definition cell10 :: "notebook \<Rightarrow> error + notebook" where
  "cell10 s = Inr (log 10 [Def_pipeline ''hvd_pipeline''] (s\<lparr>pipeline_defined := True\<rparr>))"

text \<open>
  Calling the pipeline function from a later cell: the function must be defined, and
  its body reads the three function objects.
\<close>

definition call_hvd_pipeline :: "notebook \<Rightarrow> pipeline_args \<Rightarrow> error + op list" where
  "call_hvd_pipeline s a =
     (if \<not> pipeline_defined s then Inl (NameError ''hvd_pipeline'')
      else case var ''utilsfn'' (utilsfn s) of
             Inl e \<Rightarrow> Inl e
           | Inr u \<Rightarrow>
          (case var ''trainer_fn'' (trainer_fn s) of
             Inl e \<Rightarrow> Inl e
           | Inr t \<Rightarrow>
          (case var ''inference_function'' (inference_function s) of
             Inl e \<Rightarrow> Inl e
           | Inr i \<Rightarrow> hvd_pipeline u t i a)))"

text \<open>In [11]: compile the pipeline to a file.\<close>

definition cell11 :: "notebook \<Rightarrow> error + notebook" where
  "cell11 s =
     (case call_hvd_pipeline s default_args of
        Inl e \<Rightarrow> Inl e
      | Inr ops \<Rightarrow>
          Inr (log 11 [Compile ''hvd_pipeline'' ''hvd_pipeline.yaml'']
                 (s\<lparr>compiled := Some (''hvd_pipeline.yaml'', ops)\<rparr>)))"

text \<open>In [12]: the client, the empty arguments, the submission.\<close>

definition cell12 :: "env \<Rightarrow> notebook \<Rightarrow> error + notebook" where
  "cell12 e s =
     (case call_hvd_pipeline s (with_arguments [] default_args) of
        Inl err \<Rightarrow> Inl err
      | Inr ops \<Rightarrow>
          Inr (log 12
                 [Client ''default-tenant'',
                  Create_run_from_pipeline_func ''hvd_pipeline'' [] ''horovod1'']
                 (s\<lparr>client := Some ''default-tenant'',
                    arguments := Some [],
                    the_run := Some \<lparr>run_id = new_run_id e,
                                     experiment_name = ''horovod1'',
                                     workflow = ops\<rparr>\<rparr>)))"

text \<open>The last two code cells: connect to the run database, list the workflow's runs.\<close>

definition cell13 :: "notebook \<Rightarrow> error + notebook" where
  "cell13 s = Inr (log 13 [Get_run_db_connect] (s\<lparr>db_connected := True\<rparr>))"

definition cell14 :: "env \<Rightarrow> notebook \<Rightarrow> error + notebook" where
  "cell14 e s =
     (if \<not> db_connected s then Inl (NameError ''db'')
      else case var ''run_result'' (the_run s) of
             Inl err \<Rightarrow> Inl err
           | Inr r \<Rightarrow>
               Inr (log 14
                      [List_runs '''' (''workflow='' @ run_id r), Show]
                      (s\<lparr>shown :=
                           Some (list_runs (run_db e) '''' (''workflow='' @ run_id r))\<rparr>)))"

text \<open>Running the cells from top to bottom; the first error stops the run.\<close>

fun run_cells :: "(notebook \<Rightarrow> error + notebook) list \<Rightarrow> notebook \<Rightarrow> error + notebook" where
  "run_cells [] s = Inr s"
| "run_cells (c # cs) s = (case c s of Inl e \<Rightarrow> Inl e | Inr s' \<Rightarrow> run_cells cs s')"

definition run_notebook :: "env \<Rightarrow> error + notebook" where
  "run_notebook e =
     run_cells [cell1, cell2, cell3, cell4, cell5, cell6 e, cell7, cell8, cell9, cell10,
                cell11, cell12 e, cell13, cell14 e] fresh"

subsection \<open>The recorded session\<close>

text \<open>
  The notebook is stored with the outputs of its last run. Out [6] is the descriptor
  that \<open>trainer_fn.to_dict()\<close> printed; the first line that In [4] logged carries
  the time of the session; the run link under In [12] ends in the id of the run.
\<close>

definition horovod_trainer :: pyval where
  "horovod_trainer =
     PDict
      [(''kind'', PStr ''mpijob''),
       (''metadata'',
        PDict [(''name'', PStr ''horovod-trainer''),
               (''tag'', PStr ''latest''),
               (''hash'', PStr ''ca9b2f2453afddcb69c1cc7360687249062abb96''),
               (''project'', PStr ''default''),
               (''updated'', PStr ''2020-02-27T16:24:48.358216'')]),
       (''spec'',
        PDict [(''command'', PStr ''/User/demo-image-classification/src/horovod-training.py''),
               (''args'', PList []),
               (''image'', PStr ''mlrun/mpijob:latest''),
               (''volumes'',
                PList [PDict [(''flexVolume'',
                               PDict [(''driver'', PStr ''v3io/fuse''),
                                      (''options'',
                                       PDict [(''accessKey'', PStr ''48bfe2e0-9870-4d11-9924-b20502a85363''),
                                              (''container'', PStr ''users''),
                                              (''subPath'', PStr ''/admin'')])]),
                              (''name'', PStr ''v3io'')]]),
               (''volume_mounts'',
                PList [PDict [(''mountPath'', PStr ''/User''), (''name'', PStr ''v3io'')]]),
               (''env'',
                PList [PDict [(''name'', PStr ''V3IO_API''), (''value'', PStr '''')],
                       PDict [(''name'', PStr ''V3IO_USERNAME''), (''value'', PStr '''')],
                       PDict [(''name'', PStr ''V3IO_ACCESS_KEY''), (''value'', PStr '''')]]),
               (''description'', PStr ''''),
               (''replicas'', PInt 4),
               (''image_pull_policy'', PStr ''Always''),
               (''build'', PDict [(''commands'', PList [])])])]"




text \<open>
  An example run database, with runs of two workflows, and the services of the
  recorded session over it.
\<close>

definition example_runs :: "run_record list" where
  "example_runs =
     [\<lparr>run_name = ''download'',
       run_labels = [(''workflow'', ''4fe69e52-d5b5-4aac-92e4-2da2971dd09e''), (''kind'', ''job'')]\<rparr>,
      \<lparr>run_name = ''download'',
       run_labels = [(''workflow'', ''0c41d7aa-1b0e-4be7-8a55-6f2f1f0e9d11''), (''kind'', ''job'')]\<rparr>,
      \<lparr>run_name = ''train'',
       run_labels = [(''workflow'', ''4fe69e52-d5b5-4aac-92e4-2da2971dd09e''), (''kind'', ''mpijob'')]\<rparr>,
      \<lparr>run_name = ''adhoc'', run_labels = [(''kind'', ''job'')]\<rparr>]"

definition recorded_env :: env where
  "recorded_env =
     \<lparr>fn_db = (\<lambda>url. if url = ''db://horovod-trainer'' then Some horovod_trainer else None),
      new_run_id = ''4fe69e52-d5b5-4aac-92e4-2da2971dd09e'',
      run_db = example_runs\<rparr>"

subsection \<open>Reading a run\<close>


text \<open>
  The calls of a run in the order they were made, and the workflow it submitted. A run
  that stopped on an error has made no submission.
\<close>

definition trace :: "env \<Rightarrow> call list" where
  "trace e = (case run_notebook e of Inl err \<Rightarrow> [] | Inr s \<Rightarrow> map snd (calls s))"

definition submitted :: "env \<Rightarrow> op list" where
  "submitted e =
     (case run_notebook e of
        Inl err \<Rightarrow> []
      | Inr s \<Rightarrow> (case the_run s of None \<Rightarrow> [] | Some r \<Rightarrow> workflow r))"

fun run_steps :: "op list \<Rightarrow> step list" where
  "run_steps [] = []"
| "run_steps (Run s # os) = s # run_steps os"
| "run_steps (Serve d # os) = run_steps os"

text \<open>\<open>precedes a b xs\<close>: \<open>a\<close> occurs in \<open>xs\<close>, and \<open>b\<close> occurs after but not before it.\<close>

fun precedes :: "'a \<Rightarrow> 'a \<Rightarrow> 'a list \<Rightarrow> bool" where
  "precedes a b [] = False"
| "precedes a b (x # xs) = (if x = a then b \<in> set xs else (x \<noteq> b \<and> precedes a b xs))"

text \<open>
  The six kinds of operation the specification lists, in the order it lists them:
  building a function descriptor from a source file (with the calls that configure,
  build and export it), fetching the registered function, declaring the pipeline,
  compiling it, submitting it, querying the run database. A call list is in that fixed
  order when no call of an earlier kind follows a call of a later kind.
\<close>

datatype phase = Building | Fetching | Declaring | Compiling | Submitting | Querying

fun phase_of :: "call \<Rightarrow> phase" where
  "phase_of (Code_to_function v n f i k) = Building"
| "phase_of (Apply v m) = Building"
| "phase_of (Deploy v) = Building"
| "phase_of (Export v f) = Building"
| "phase_of (Import_function v u) = Fetching"
| "phase_of (To_dict v) = Fetching"
| "phase_of (New_model_server v n f c) = Building"
| "phase_of (With_http v w) = Building"
| "phase_of (Def_pipeline n) = Declaring"
| "phase_of (Compile n f) = Compiling"
| "phase_of (Client n) = Submitting"
| "phase_of (Create_run_from_pipeline_func n a x) = Submitting"
| "phase_of Get_run_db_connect = Querying"
| "phase_of (List_runs n l) = Querying"
| "phase_of Show = Querying"

fun rank :: "phase \<Rightarrow> nat" where
  "rank Building = 0"
| "rank Fetching = 1"
| "rank Declaring = 2"
| "rank Compiling = 3"
| "rank Submitting = 4"
| "rank Querying = 5"

definition in_listed_order :: "call list \<Rightarrow> bool" where
  "in_listed_order cs = sorted (map (\<lambda>c. rank (phase_of c)) cs)"

text \<open>
  A step has access to the data fabric when its function object was mounted with
  \<open>mount_v3io()\<close> or the step itself was given \<open>v3io_cred()\<close>.
\<close>

fun has_fabric_access :: "op \<Rightarrow> bool" where
  "has_fabric_access (Run s) =
     (mount_v3io \<in> set (fn_applied (step_fn s)) \<or> v3io_cred \<in> set (step_applied s))"
| "has_fabric_access (Serve d) = (mount_v3io \<in> set (fn_applied (deploy_fn d)))"

text \<open>
  Two steps differ only in handler, params, inputs and outputs (and in the name that
  tells them apart) when giving one the other's values for these makes them equal.
\<close>

definition differ_only_in_call_keywords :: "step \<Rightarrow> step \<Rightarrow> bool" where
  "differ_only_in_call_keywords s t =
     (s\<lparr>step_name := step_name t, handler := handler t, params := params t,
        inputs := inputs t, outputs := outputs t\<rparr> = t)"

text \<open>\<open>right_after a b xs\<close>: somewhere in \<open>xs\<close>, \<open>b\<close> is the element next to \<open>a\<close>.\<close>

fun right_after :: "'a \<Rightarrow> 'a \<Rightarrow> 'a list \<Rightarrow> bool" where
  "right_after a b [] = False"
| "right_after a b [x] = False"
| "right_after a b (x # y # xs) = ((x = a \<and> y = b) \<or> right_after a b (y # xs))"

text \<open>\<open>builds v c\<close>: the call \<open>c\<close> constructs the function object assigned to \<open>v\<close>.\<close>

fun builds :: "string \<Rightarrow> call \<Rightarrow> bool" where
  "builds v (Code_to_function w n f i k) = (v = w)"
| "builds v (New_model_server w n f c) = (v = w)"
| "builds v (Import_function w u) = (v = w)"
| "builds v (Apply w m) = False"
| "builds v (Deploy w) = False"
| "builds v (Export w f) = False"
| "builds v (To_dict w) = False"
| "builds v (With_http w n) = False"
| "builds v (Def_pipeline n) = False"
| "builds v (Compile n f) = False"
| "builds v (Client n) = False"
| "builds v (Create_run_from_pipeline_func n a x) = False"
| "builds v Get_run_db_connect = False"
| "builds v (List_runs n l) = False"
| "builds v Show = False"

section \<open>Properties\<close>

lemmas cell_defs = cell1_def cell2_def cell3_def cell4_def cell5_def cell6_def cell7_def
  cell8_def cell9_def cell10_def cell11_def cell12_def cell13_def cell14_def
  call_hvd_pipeline_def var_def log_def fresh_def

lemmas sdk_defs = code_to_function_def normalize_name_def default_image_name_def
  fn_deploy_def new_model_server_def import_function_def
  apply_modifier_def with_http_def as_step_def after_step_def apply_step_def
  step_output_def deploy_step_def

lemmas run_defs = run_notebook_def cell_defs sdk_defs hvd_pipeline_def Let_def
  default_args_def with_arguments_def

subsection \<open>When the run goes through\<close>


lemma run_notebook_returns:
  assumes "fn_db e ''db://horovod-trainer'' = Some d"
  shows "\<exists>s. run_notebook e = Inr s \<and> map fst (calls s) =
           [4, 4, 4, 5, 6, 6, 7, 7, 7, 10, 11, 12, 12, 13, 14, 14]"
  using assms by (simp add: run_defs)

lemma recorded_import: "fn_db recorded_env ''db://horovod-trainer'' = Some horovod_trainer"
  by (simp add: recorded_env_def)

lemma recorded_run_id: "new_run_id recorded_env = ''4fe69e52-d5b5-4aac-92e4-2da2971dd09e''"
  by (simp add: recorded_env_def)

lemma os_path_join_images: "os_path_join ''/User/mlrun/examples'' ''images'' =
    ''/User/mlrun/examples/images''"
  by (simp add: os_path_join_def)

text \<open>
  A key that is not among a step's declared outputs raises; the three lookups of
  \<open>hvd_pipeline\<close> name declared outputs, so the pipeline function always returns.
\<close>

lemma step_output_undeclared:
  assumes "k \<notin> set (outputs s)"
  shows "step_output s k = Inl (KeyError k)"
  using assms by (simp add: step_output_def)

lemma hvd_pipeline_returns: "\<exists>ops. hvd_pipeline u t i a = Inr ops \<and> length ops = 4"
  by (simp add: hvd_pipeline_def sdk_defs Let_def)

subsection \<open>The pipeline\<close>

text \<open>
  C1. \<open>hvd_pipeline\<close> declares exactly four steps, in this order: the step named
  download, the step named label, the step named train, and the deployment of the
  model server. The label step is declared to run after the download step, the train
  step takes the outputs categories_map and file_categories of the label step as its
  inputs, and the deployment takes the output model of the train step. This holds for
  every choice of the three function objects and of the pipeline's arguments.
\<close>

theorem hvd_pipeline_four_steps:
  "\<exists>open_archive label train deploy.
     hvd_pipeline u t i a = Inr [Run open_archive, Run label, Run train, Serve deploy] \<and>
     step_name open_archive = ''download'' \<and> handler open_archive = Some ''open_archive'' \<and>
     inputs open_archive = [(''archive_url'', Val (PStr (image_archive a)))] \<and>
     step_fn open_archive = u \<and> after open_archive = [] \<and>
     step_name label = ''label'' \<and> handler label = Some ''categories_map_builder'' \<and>
     step_fn label = u \<and> after label = [step_name open_archive] \<and>
     outputs label = [''categories_map'', ''file_categories''] \<and>
     step_name train = ''train'' \<and> step_fn train = t \<and> after train = [] \<and>
     inputs train =
       [(''categories_map'', Output (step_name label) ''categories_map''),
        (''file_categories'', Output (step_name label) ''file_categories'')] \<and>
     outputs train = [''model''] \<and>
     deploy_fn deploy = i \<and>
     models deploy = [(model_name a, Output (step_name train) ''model'')]"
  by (simp add: hvd_pipeline_def sdk_defs Let_def)

text \<open>
  C9. Called with its default arguments, \<open>hvd_pipeline\<close> gives the download step the
  archive \<open>http://iguazio-sample-data.s3.amazonaws.com/catsndogs.zip\<close> as input and
  \<open>/User/mlrun/examples/images\<close> as target directory, gives the train step the params
  epochs 1, the checkpoints directory \<open>/User/mlrun/examples/checkpoints\<close> and the
  model path \<open>/User/mlrun/examples/models/cats_n_dogs.h5\<close>, and deploys the model
  under the name \<open>cat_vs_dog_v1\<close>; the empty arguments of the submission leave the
  defaults in place. For every argument record, the download step and the label step
  both have the argument \<open>images_path\<close> as their output path.
\<close>

theorem hvd_pipeline_defaults:
  "\<exists>download label train deploy.
     hvd_pipeline u t i default_args = Inr [Run download, Run label, Run train, Serve deploy] \<and>
     inputs download =
       [(''archive_url'',
         Val (PStr ''http://iguazio-sample-data.s3.amazonaws.com/catsndogs.zip''))] \<and>
     params download = [(''target_dir'', Val (PStr ''/User/mlrun/examples/images''))] \<and>
     out_path download = Some ''/User/mlrun/examples/images'' \<and>
     out_path label = Some ''/User/mlrun/examples/images'' \<and>
     params train =
       [(''epochs'', Val (PInt 1)),
        (''checkpoints_dir'', Val (PStr ''/User/mlrun/examples/checkpoints'')),
        (''model_path'', Val (PStr ''/User/mlrun/examples/models/cats_n_dogs.h5'')),
        (''data_path'', Val (PStr ''/User/mlrun/examples/images/cats_n_dogs''))] \<and>
     models deploy = [(''cat_vs_dog_v1'', Output ''train'' ''model'')] \<and>
     with_arguments [] default_args = default_args \<and>
     (\<forall>a. \<exists>dl lb rest.
        hvd_pipeline u t i a = Inr (Run dl # Run lb # rest) \<and>
        step_name dl = ''download'' \<and> step_name lb = ''label'' \<and>
        out_path dl = Some (images_path a) \<and> out_path lb = Some (images_path a) \<and>
        params dl = [(''target_dir'', Val (PStr (images_path a)))])"
  by (simp add: hvd_pipeline_def sdk_defs Let_def default_args_def with_arguments_def)

subsection \<open>The function objects\<close>




text \<open>
  C6. The run builds \<open>utilsfn\<close> once, with \<open>code_to_function\<close>, called with the name
  \<open>file_utils\<close>, the file \<open>../src/utils.py\<close>, the image \<open>mlrun/mlrun:latest\<close> and the
  kind \<open>job\<close>: the object it returns has that file, that image and that kind, and goes
  by the name \<open>file-utils\<close>. The run then calls \<open>deploy()\<close> on it, which builds its
  container image, the image \<open>.mlrun/func-default-file-utils-latest\<close> that In [4]
  logged. It builds \<open>inference_function\<close> once, with \<open>new_model_server\<close>, under the
  name \<open>tf-images-server\<close> from the notebook file \<open>./nuclio-serving-tf-images.ipynb\<close>
  with the model class \<open>TFModel\<close>.
\<close>

theorem descriptors_built_from_source_files:
  assumes "fn_db e ''db://horovod-trainer'' = Some d"
  shows "\<exists>s u built srv.
     run_notebook e = Inr s \<and> utilsfn s = Some u \<and> inference_function s = Some srv \<and>
     filter (builds ''utilsfn'') (trace e) =
       [Code_to_function ''utilsfn'' ''file_utils'' ''../src/utils.py''
          ''mlrun/mlrun:latest'' ''job''] \<and>
     built = code_to_function ''file_utils'' ''../src/utils.py'' ''mlrun/mlrun:latest'' ''job'' \<and>
     fn_name built = ''file-utils'' \<and> fn_filename built = Some ''../src/utils.py'' \<and>
     fn_image built = Some ''mlrun/mlrun:latest'' \<and> fn_kind built = Some ''job'' \<and>
     fn_build_image built = None \<and>
     u = fn_deploy (apply_modifier mount_v3io built) \<and>
     fn_name u = ''file-utils'' \<and> fn_filename u = Some ''../src/utils.py'' \<and>
     fn_kind u = Some ''job'' \<and>
     fn_build_image u = Some ''.mlrun/func-default-file-utils-latest'' \<and>
     precedes
       (Code_to_function ''utilsfn'' ''file_utils'' ''../src/utils.py''
          ''mlrun/mlrun:latest'' ''job'')
       (Deploy ''utilsfn'') (trace e) \<and>
     filter (builds ''inference_function'') (trace e) =
       [New_model_server ''inference_function'' ''tf-images-server''
          ''./nuclio-serving-tf-images.ipynb'' ''TFModel''] \<and>
     fn_name srv = ''tf-images-server'' \<and>
     fn_filename srv = Some ''./nuclio-serving-tf-images.ipynb'' \<and>
     fn_model_class srv = Some ''TFModel''"
  using assms by (simp add: trace_def run_defs)

theorem descriptors_built_from_source_files_recorded:
  "\<exists>s u srv.
     run_notebook recorded_env = Inr s \<and> utilsfn s = Some u \<and>
     inference_function s = Some srv \<and>
     fn_filename u = Some ''../src/utils.py'' \<and>
     fn_build_image u = Some ''.mlrun/func-default-file-utils-latest'' \<and>
     fn_filename srv = Some ''./nuclio-serving-tf-images.ipynb''"
proof -
  from descriptors_built_from_source_files [OF recorded_import]
  obtain s u srv where "run_notebook recorded_env = Inr s" "utilsfn s = Some u"
    "inference_function s = Some srv" "fn_filename u = Some ''../src/utils.py''"
    "fn_build_image u = Some ''.mlrun/func-default-file-utils-latest''"
    "fn_filename srv = Some ''./nuclio-serving-tf-images.ipynb''"
    by blast
  then show ?thesis by blast
qed

text \<open>
  C3. In a run, the model server \<open>tf-images-server\<close> is given an HTTP trigger with 2
  workers, and the last step of the submitted (and of the compiled) workflow deploys
  that function object with a models mapping of one entry, which binds the model name
  to the output model of the train step, an output that the train step declares. For
  every choice of function objects and arguments the deployment of \<open>hvd_pipeline\<close>
  binds the argument \<open>model_name\<close> to that output.
\<close>

theorem served_model_is_trained_model:
  assumes "fn_db e ''db://horovod-trainer'' = Some d"
  shows "\<exists>s srv r o1 o2 train deploy.
     run_notebook e = Inr s \<and> inference_function s = Some srv \<and>
     fn_name srv = ''tf-images-server'' \<and> fn_workers srv = Some 2 \<and>
     (7, With_http ''inference_function'' 2) \<in> set (calls s) \<and>
     the_run s = Some r \<and> workflow r = [o1, o2, Run train, Serve deploy] \<and>
     compiled s = Some (''hvd_pipeline.yaml'', workflow r) \<and>
     step_name train = ''train'' \<and> outputs train = [''model''] \<and>
     deploy_fn deploy = srv \<and>
     models deploy = [(''cat_vs_dog_v1'', Output (step_name train) ''model'')] \<and>
     (\<forall>u t i a. \<exists>p1 p2 tr dp.
        hvd_pipeline u t i a = Inr [p1, p2, Run tr, Serve dp] \<and>
        deploy_fn dp = i \<and> ''model'' \<in> set (outputs tr) \<and>
        models dp = [(model_name a, Output (step_name tr) ''model'')])"
  using assms by (simp add: run_defs)

theorem served_model_is_trained_model_recorded:
  "\<exists>s srv r o1 o2 train deploy.
     run_notebook recorded_env = Inr s \<and> inference_function s = Some srv \<and>
     fn_name srv = ''tf-images-server'' \<and> fn_workers srv = Some 2 \<and>
     the_run s = Some r \<and> workflow r = [o1, o2, Run train, Serve deploy] \<and>
     step_name train = ''train'' \<and> outputs train = [''model''] \<and>
     deploy_fn deploy = srv \<and>
     models deploy = [(''cat_vs_dog_v1'', Output ''train'' ''model'')]"
  using served_model_is_trained_model [OF recorded_import] by auto

subsection \<open>The order of the notebook's operations\<close>

text \<open>
  The run of the recorded session is not in the fixed order build, fetch, declare,
  compile, submit, query: the model server is built from its notebook file in In [7],
  after the training function was fetched in In [6].
\<close>

theorem listed_order_fails: "\<not> in_listed_order (trace recorded_env)"
  by (simp add: trace_def in_listed_order_def run_defs recorded_env_def)

text \<open>
  C4. Every run that gets its training function makes the same calls in the
  same order: it builds the utility function from its source file (and mounts, builds
  and exports it), then fetches the registered training function, then builds the model
  server from its notebook file (and sets its trigger and mount), then declares the
  pipeline, then compiles it, then submits it, and last queries the run database. In
  particular the pipeline is compiled before it is submitted, and the run database is
  connected to and queried after the submission.
\<close>

theorem notebook_order:
  assumes "fn_db e ''db://horovod-trainer'' = Some d"
  shows "trace e =
     [Code_to_function ''utilsfn'' ''file_utils'' ''../src/utils.py''
        ''mlrun/mlrun:latest'' ''job'',
      Apply ''utilsfn'' mount_v3io,
      Deploy ''utilsfn'',
      Export ''utilsfn'' ''../yaml/utils.yaml'',
      Import_function ''trainer_fn'' ''db://horovod-trainer'',
      To_dict ''trainer_fn'',
      New_model_server ''inference_function'' ''tf-images-server''
        ''./nuclio-serving-tf-images.ipynb'' ''TFModel'',
      With_http ''inference_function'' 2,
      Apply ''inference_function'' mount_v3io,
      Def_pipeline ''hvd_pipeline'',
      Compile ''hvd_pipeline'' ''hvd_pipeline.yaml'',
      Client ''default-tenant'',
      Create_run_from_pipeline_func ''hvd_pipeline'' [] ''horovod1'',
      Get_run_db_connect,
      List_runs '''' (''workflow='' @ new_run_id e),
      Show] \<and>
    remdups_adj (map phase_of (trace e)) =
      [Building, Fetching, Building, Declaring, Compiling, Submitting, Querying] \<and>
    precedes (Compile ''hvd_pipeline'' ''hvd_pipeline.yaml'')
      (Create_run_from_pipeline_func ''hvd_pipeline'' [] ''horovod1'') (trace e) \<and>
    precedes (Create_run_from_pipeline_func ''hvd_pipeline'' [] ''horovod1'')
      Get_run_db_connect (trace e) \<and>
    precedes (Create_run_from_pipeline_func ''hvd_pipeline'' [] ''horovod1'')
      (List_runs '''' (''workflow='' @ new_run_id e)) (trace e)"
proof -
  from assms have tr: "trace e =
     [Code_to_function ''utilsfn'' ''file_utils'' ''../src/utils.py''
        ''mlrun/mlrun:latest'' ''job'',
      Apply ''utilsfn'' mount_v3io,
      Deploy ''utilsfn'',
      Export ''utilsfn'' ''../yaml/utils.yaml'',
      Import_function ''trainer_fn'' ''db://horovod-trainer'',
      To_dict ''trainer_fn'',
      New_model_server ''inference_function'' ''tf-images-server''
        ''./nuclio-serving-tf-images.ipynb'' ''TFModel'',
      With_http ''inference_function'' 2,
      Apply ''inference_function'' mount_v3io,
      Def_pipeline ''hvd_pipeline'',
      Compile ''hvd_pipeline'' ''hvd_pipeline.yaml'',
      Client ''default-tenant'',
      Create_run_from_pipeline_func ''hvd_pipeline'' [] ''horovod1'',
      Get_run_db_connect,
      List_runs '''' (''workflow='' @ new_run_id e),
      Show]"
    by (simp add: trace_def run_defs)
  show ?thesis
    unfolding tr by simp
qed

theorem notebook_order_recorded:
  "remdups_adj (map phase_of (trace recorded_env)) =
      [Building, Fetching, Building, Declaring, Compiling, Submitting, Querying] \<and>
   precedes (Compile ''hvd_pipeline'' ''hvd_pipeline.yaml'')
      (Create_run_from_pipeline_func ''hvd_pipeline'' [] ''horovod1'') (trace recorded_env) \<and>
   precedes (Create_run_from_pipeline_func ''hvd_pipeline'' [] ''horovod1'')
      (List_runs '''' ''workflow=4fe69e52-d5b5-4aac-92e4-2da2971dd09e'') (trace recorded_env)"
  using notebook_order [OF recorded_import] recorded_run_id by simp

subsection \<open>The query of the run database\<close>

text \<open>
  A condition on the label \<open>workflow\<close> with a value that is not empty selects the runs
  that have this value under the label. With the empty value it would also select the
  runs that have no such label.
\<close>

lemma has_label_workflow:
  assumes "rid \<noteq> []"
  shows "has_label (''workflow='' @ rid) r = (map_of (run_labels r) ''workflow'' = Some rid)"
  using assms by (auto simp add: has_label_def split: option.splits)

lemma empty_value_matches_unlabelled_run:
  "has_label ''workflow='' \<lparr>run_name = n, run_labels = []\<rparr>"
  by (simp add: has_label_def)

lemma list_runs_workflow:
  assumes "rid \<noteq> []"
  shows "list_runs db [] (''workflow='' @ rid) =
           filter (\<lambda>x. map_of (run_labels x) ''workflow'' = Some rid) db"
proof -
  have "list_runs db [] (''workflow='' @ rid) = filter (has_label (''workflow='' @ rid)) db"
    by (simp add: list_runs_def)
  also have "\<dots> = filter (\<lambda>x. map_of (run_labels x) ''workflow'' = Some rid) db"
    by (rule filter_cong) (simp_all only: has_label_workflow [OF assms])
  finally show ?thesis .
qed

text \<open>
  C5. After the submission the run connects to the run database and lists the runs
  with the empty name and the label filter \<open>workflow=\<close> followed by the id of the run
  that the submission created. When that id is not empty, the runs shown are the runs
  of the run database that carry the label \<open>workflow\<close> with that id, and no other.
\<close>

theorem list_runs_of_submitted_workflow:
  assumes "fn_db e ''db://horovod-trainer'' = Some d" and "new_run_id e \<noteq> []"
  shows "\<exists>s r rs.
     run_notebook e = Inr s \<and> the_run s = Some r \<and> run_id r = new_run_id e \<and>
     map snd (filter (\<lambda>p. 12 \<le> fst p) (calls s)) =
       [Client ''default-tenant'',
        Create_run_from_pipeline_func ''hvd_pipeline'' [] ''horovod1'',
        Get_run_db_connect,
        List_runs '''' (''workflow='' @ run_id r),
        Show] \<and>
     shown s = Some rs \<and>
     rs = list_runs (run_db e) '''' (''workflow='' @ run_id r) \<and>
     rs = filter (\<lambda>x. map_of (run_labels x) ''workflow'' = Some (run_id r)) (run_db e) \<and>
     list_all (\<lambda>x. (''workflow'', run_id r) \<in> set (run_labels x)) rs"
proof -
  let ?q = "list_runs (run_db e) [] (''workflow='' @ new_run_id e)"
  have q: "?q = filter (\<lambda>x. map_of (run_labels x) ''workflow'' = Some (new_run_id e)) (run_db e)"
    by (rule list_runs_workflow [OF assms(2)])
  have "list_all (\<lambda>x. (''workflow'', new_run_id e) \<in> set (run_labels x)) ?q"
    unfolding q by (simp add: list_all_iff map_of_SomeD)
  with assms(1) q show ?thesis by (simp add: run_defs)
qed

theorem list_runs_of_submitted_workflow_recorded:
  "\<exists>s r.
     run_notebook recorded_env = Inr s \<and> the_run s = Some r \<and>
     run_id r = ''4fe69e52-d5b5-4aac-92e4-2da2971dd09e'' \<and>
     shown s = Some [example_runs ! 0, example_runs ! 2]"
proof -
  have n: "new_run_id recorded_env \<noteq> []"
    by (simp add: recorded_env_def)
  have l: "filter (\<lambda>x. map_of (run_labels x) ''workflow'' =
                        Some ''4fe69e52-d5b5-4aac-92e4-2da2971dd09e'') (run_db recorded_env)
           = [example_runs ! 0, example_runs ! 2]"
    by (simp add: recorded_env_def example_runs_def)
  from list_runs_of_submitted_workflow [OF recorded_import n] l recorded_run_id
  show ?thesis by auto
qed

subsection \<open>Access to the data fabric\<close>

text \<open>
  In the recorded session the mount of \<open>utilsfn\<close> is the call right after its
  construction, but the mount of \<open>inference_function\<close> is not: \<open>with_http\<close> comes
  between the two.
\<close>

theorem model_server_mount_not_right_after:
  "right_after
     (Code_to_function ''utilsfn'' ''file_utils'' ''../src/utils.py''
        ''mlrun/mlrun:latest'' ''job'')
     (Apply ''utilsfn'' mount_v3io) (trace recorded_env) \<and>
   \<not> right_after
     (New_model_server ''inference_function'' ''tf-images-server''
        ''./nuclio-serving-tf-images.ipynb'' ''TFModel'')
     (Apply ''inference_function'' mount_v3io) (trace recorded_env)"
  by (simp add: trace_def run_defs recorded_env_def)

text \<open>
  C8. In a run, \<open>utilsfn\<close> is mounted with \<open>mount_v3io()\<close> by the call right
  after its construction, and \<open>inference_function\<close> is mounted in the cell that
  constructs it, right after its \<open>with_http\<close> call; both mounts come before the
  pipeline is declared. The train step is given \<open>v3io_cred()\<close> where it is declared.
  Every step of the compiled and of the submitted workflow has a mounted function
  object or the credentials.
\<close>

theorem steps_have_fabric_access:
  assumes "fn_db e ''db://horovod-trainer'' = Some d"
  shows "\<exists>s u srv r c o1 o2 train o4.
     run_notebook e = Inr s \<and> utilsfn s = Some u \<and> inference_function s = Some srv \<and>
     mount_v3io \<in> set (fn_applied u) \<and> mount_v3io \<in> set (fn_applied srv) \<and>
     map snd (filter (\<lambda>p. fst p = 4) (calls s)) =
       [Code_to_function ''utilsfn'' ''file_utils'' ''../src/utils.py''
          ''mlrun/mlrun:latest'' ''job'',
        Apply ''utilsfn'' mount_v3io,
        Deploy ''utilsfn''] \<and>
     map snd (filter (\<lambda>p. fst p = 7) (calls s)) =
       [New_model_server ''inference_function'' ''tf-images-server''
          ''./nuclio-serving-tf-images.ipynb'' ''TFModel'',
        With_http ''inference_function'' 2,
        Apply ''inference_function'' mount_v3io] \<and>
     right_after
       (Code_to_function ''utilsfn'' ''file_utils'' ''../src/utils.py''
          ''mlrun/mlrun:latest'' ''job'')
       (Apply ''utilsfn'' mount_v3io) (trace e) \<and>
     right_after
       (New_model_server ''inference_function'' ''tf-images-server''
          ''./nuclio-serving-tf-images.ipynb'' ''TFModel'')
       (With_http ''inference_function'' 2) (trace e) \<and>
     right_after (With_http ''inference_function'' 2)
       (Apply ''inference_function'' mount_v3io) (trace e) \<and>
     precedes (Apply ''utilsfn'' mount_v3io) (Def_pipeline ''hvd_pipeline'') (trace e) \<and>
     precedes (Apply ''inference_function'' mount_v3io) (Def_pipeline ''hvd_pipeline'')
       (trace e) \<and>
     compiled s = Some (''hvd_pipeline.yaml'', c) \<and> list_all has_fabric_access c \<and>
     the_run s = Some r \<and> workflow r = [o1, o2, Run train, o4] \<and>
     step_name train = ''train'' \<and> step_applied train = [v3io_cred] \<and>
     list_all has_fabric_access (workflow r)"
  using assms by (simp add: trace_def run_defs)

theorem steps_have_fabric_access_recorded:
  "\<exists>s r. run_notebook recorded_env = Inr s \<and> the_run s = Some r \<and>
     length (workflow r) = 4 \<and> list_all has_fabric_access (workflow r)"
proof -
  from steps_have_fabric_access [OF recorded_import]
  obtain s r o1 o2 train o4 where "run_notebook recorded_env = Inr s" "the_run s = Some r"
    "workflow r = [o1, o2, Run train, o4]" "list_all has_fabric_access (workflow r)"
    by blast
  then show ?thesis by auto
qed

subsection \<open>One function object behind two steps\<close>

text \<open>
  In the recorded session the label step with the name, handler, params, inputs and
  outputs of the download step is still not the download step: it runs after
  download, and the download step runs after nothing.
\<close>

theorem download_and_label_differ_in_after:
  "length (run_steps (submitted recorded_env)) = 3 \<and>
   \<not> differ_only_in_call_keywords (run_steps (submitted recorded_env) ! 1)
        (run_steps (submitted recorded_env) ! 0)"
  by (simp add: submitted_def differ_only_in_call_keywords_def run_defs recorded_env_def)

text \<open>
  C10. In a run, \<open>utilsfn\<close> is built once, from \<open>../src/utils.py\<close>, and is
  the function object of the first two steps of the submitted workflow: the step
  download with the handler \<open>open_archive\<close> and the step label with the handler
  \<open>categories_map_builder\<close>. The two steps have the same image, the same mounts and
  the same output path, and differ only in name, handler, params, inputs and outputs,
  and in that label is declared to run after download.
\<close>

theorem one_function_two_steps:
  assumes "fn_db e ''db://horovod-trainer'' = Some d"
  shows "\<exists>s u r download label rest.
     run_notebook e = Inr s \<and> utilsfn s = Some u \<and>
     filter (builds ''utilsfn'') (trace e) =
       [Code_to_function ''utilsfn'' ''file_utils'' ''../src/utils.py''
          ''mlrun/mlrun:latest'' ''job''] \<and>
     the_run s = Some r \<and> workflow r = Run download # Run label # rest \<and>
     step_fn download = u \<and> step_fn label = u \<and>
     fn_image (step_fn download) = fn_image (step_fn label) \<and>
     fn_applied (step_fn download) = fn_applied (step_fn label) \<and>
     out_path download = out_path label \<and>
     step_name download = ''download'' \<and> handler download = Some ''open_archive'' \<and>
     step_name label = ''label'' \<and> handler label = Some ''categories_map_builder'' \<and>
     label\<lparr>step_name := step_name download, handler := handler download,
           params := params download, inputs := inputs download,
           outputs := outputs download, after := after download\<rparr> = download \<and>
     params label \<noteq> params download \<and> inputs label \<noteq> inputs download \<and>
     outputs label \<noteq> outputs download \<and>
     after download = [] \<and> after label = [''download'']"
  using assms by (simp add: trace_def run_defs)

theorem one_function_two_steps_recorded:
  "\<exists>s u r download label rest.
     run_notebook recorded_env = Inr s \<and> utilsfn s = Some u \<and>
     the_run s = Some r \<and> workflow r = Run download # Run label # rest \<and>
     step_fn download = u \<and> step_fn label = u \<and>
     after download = [] \<and> after label = [''download'']"
proof -
  from one_function_two_steps [OF recorded_import]
  obtain s u r download label rest where
    "run_notebook recorded_env = Inr s" "utilsfn s = Some u" "the_run s = Some r"
    "workflow r = Run download # Run label # rest" "step_fn download = u"
    "step_fn label = u" "after download = []" "after label = [''download'']"
    by blast
  then show ?thesis by blast
qed

end
